theory Spec2Isabelle
  imports Complex_Main "HOL-Library.Word"
begin

text \<open>
  A model of the request pipeline of the PIPELINK SDK: the configuration normalizer, the
  HTTP transport with its timeout race and error classification, the three network
  operations built on it, and local message signing. Promises are modelled by their final
  state, thrown errors by values, and every call of the injected transport function is
  logged, so that statements about what an operation returns, how it fails and whether it
  touched the network can be made and proved.
\<close>

section \<open>JavaScript values\<close>

text \<open>
  The SDK is TypeScript, but its checks are the dynamic ones of JavaScript
  (\<^verbatim>\<open>!x\<close>, \<^verbatim>\<open>typeof x\<close>, \<^verbatim>\<open>x || d\<close>), so values that the code inspects at run
  time are modelled dynamically. A number is a finite value or one of the three special
  values; signed zero is not distinguished (both zeros are falsy). The values are those of
  JSON, \<^verbatim>\<open>undefined\<close>, and \<^verbatim>\<open>BigInt\<close>, a value that the open-ended payload types
  admit and that has no JSON serialization. Functions and symbols are not modelled.
\<close>

datatype jsnumber = Num real | NaN | PosInfinity | NegInfinity

datatype jsval =
    JUndefined
  | JNull
  | JBool bool
  | JNumber jsnumber
  | JString string
  | JBigInt int
  | JArray "jsval list"
  | JObject "(string \<times> jsval) list"

text \<open>Truthiness of a number: everything but \<open>0\<close> and \<open>NaN\<close>.\<close>

fun number_truthy :: "jsnumber \<Rightarrow> bool" where
  "number_truthy (Num r) = (r \<noteq> 0)"
| "number_truthy NaN = False"
| "number_truthy PosInfinity = True"
| "number_truthy NegInfinity = True"

text \<open>\<^verbatim>\<open>!!v\<close>\<close>

fun truthy :: "jsval \<Rightarrow> bool" where
  "truthy JUndefined = False"
| "truthy JNull = False"
| "truthy (JBool b) = b"
| "truthy (JNumber n) = number_truthy n"
| "truthy (JString s) = (s \<noteq> [])"
| "truthy (JBigInt n) = (n \<noteq> 0)"
| "truthy (JArray _) = True"
| "truthy (JObject _) = True"

text \<open>\<^verbatim>\<open>typeof v\<close>\<close>

fun typeof :: "jsval \<Rightarrow> string" where
  "typeof JUndefined = ''undefined''"
| "typeof JNull = ''object''"
| "typeof (JBool _) = ''boolean''"
| "typeof (JNumber _) = ''number''"
| "typeof (JString _) = ''string''"
| "typeof (JBigInt _) = ''bigint''"
| "typeof (JArray _) = ''object''"
| "typeof (JObject _) = ''object''"

text \<open>
  Reading a named property \<^verbatim>\<open>v.k\<close> of a value that is not \<^verbatim>\<open>null\<close> or
  \<^verbatim>\<open>undefined\<close>. The only names the SDK reads are \<^verbatim>\<open>name\<close>, \<^verbatim>\<open>balance\<close>,
  \<^verbatim>\<open>unit\<close>, \<^verbatim>\<open>pipelineId\<close>, \<^verbatim>\<open>status\<close>, \<^verbatim>\<open>wallet\<close>, \<^verbatim>\<open>message\<close> and
  \<^verbatim>\<open>signature\<close>; none of them is a property of an array or of a primitive, so those
  yield \<^verbatim>\<open>undefined\<close>. Every call site guards against \<^verbatim>\<open>null\<close> and
  \<^verbatim>\<open>undefined\<close> first.
\<close>

fun get_prop :: "jsval \<Rightarrow> string \<Rightarrow> jsval" where
  "get_prop (JObject kvs) k = (case map_of kvs k of None \<Rightarrow> JUndefined | Some v \<Rightarrow> v)"
| "get_prop _ k = JUndefined"

text \<open>\<^verbatim>\<open>s.startsWith(p)\<close>\<close>

definition startsWith :: "string \<Rightarrow> string \<Rightarrow> bool" where
  "startsWith s p = (take (length p) s = p)"

text \<open>\<^verbatim>\<open>s.includes(p)\<close>: \<open>p\<close> occurs in \<open>s\<close> at some position.\<close>

fun includes_str :: "string \<Rightarrow> string \<Rightarrow> bool" where
  "includes_str [] p = (p = [])"
| "includes_str (c # cs) p = (startsWith (c # cs) p \<or> includes_str cs p)"

text \<open>
  \<^verbatim>\<open>s.replace(/\/$/, "")\<close>: the pattern matches one slash at the very end of the input
  (no multiline flag), and the first match only is replaced.
\<close>

definition strip_trailing_slash :: "string \<Rightarrow> string" where
  "strip_trailing_slash s = (if s \<noteq> [] \<and> last s = CHR ''/'' then butlast s else s)"

section \<open>Error classes (errors/sdk-error.ts)\<close>

text \<open>
  What a \<^verbatim>\<open>throw\<close> or a rejected promise carries. The four classes of the SDK keep
  their fields (\<open>message\<close> first); \<open>TypeError\<close> is the platform's class that
  \<^verbatim>\<open>httpRequest\<close> tests for; \<open>OtherError\<close> is an instance of \<^verbatim>\<open>Error\<close> of any
  other class (\<^verbatim>\<open>Error\<close> itself, \<^verbatim>\<open>SyntaxError\<close>, \<^verbatim>\<open>URIError\<close>, ...);
  \<open>NonError\<close> is a thrown value that is not an \<^verbatim>\<open>Error\<close> at all.
\<close>

datatype thrown =
    ValidationError string
  | NetworkError string "thrown option"
  | TimeoutError string jsnumber
  | HTTPError string jsnumber string jsval
  | TypeError string
  | OtherError string
  | NonError jsval

text \<open>\<^verbatim>\<open>error instanceof Error\<close> and \<^verbatim>\<open>error.message\<close>\<close>

fun instanceof_Error :: "thrown \<Rightarrow> bool" where
  "instanceof_Error (NonError _) = False"
| "instanceof_Error _ = True"

fun error_message :: "thrown \<Rightarrow> string" where
  "error_message (ValidationError m) = m"
| "error_message (NetworkError m _) = m"
| "error_message (TimeoutError m _) = m"
| "error_message (HTTPError m _ _ _) = m"
| "error_message (TypeError m) = m"
| "error_message (OtherError m) = m"
| "error_message (NonError _) = []"

fun instanceof_ValidationError :: "thrown \<Rightarrow> bool" where
  "instanceof_ValidationError (ValidationError _) = True"
| "instanceof_ValidationError _ = False"

fun instanceof_HTTPError :: "thrown \<Rightarrow> bool" where
  "instanceof_HTTPError (HTTPError _ _ _ _) = True"
| "instanceof_HTTPError _ = False"

fun instanceof_NetworkError :: "thrown \<Rightarrow> bool" where
  "instanceof_NetworkError (NetworkError _ _) = True"
| "instanceof_NetworkError _ = False"


fun instanceof_TypeError :: "thrown \<Rightarrow> bool" where
  "instanceof_TypeError (TypeError _) = True"
| "instanceof_TypeError _ = False"


section \<open>Promises, requests, responses\<close>

text \<open>
  The final state of an awaited promise. \<open>Pending\<close> is a promise that does not settle;
  for the promise that enters the timeout race it means: not settled when the timer
  fires (real time is not modelled, the environment decides who wins the race).
\<close>

datatype 'a async = Resolved 'a | Rejected thrown | Pending

text \<open>
  The \<^verbatim>\<open>RequestInit\<close> that \<^verbatim>\<open>httpRequest\<close> builds. \<open>body = None\<close> is a
  descriptor with no \<^verbatim>\<open>body\<close> field; \<open>http_method\<close> is its \<^verbatim>\<open>method\<close> field.
  The headers object is a map from header names to values: which names it has and what
  they are bound to, not the order in which the object enumerates them.
\<close>

record request_init =
  http_method :: string
  headers :: "string \<rightharpoonup> string"
  body :: "string option"

text \<open>
  What \<^verbatim>\<open>httpRequest\<close> reads of a \<^verbatim>\<open>Response\<close>: \<^verbatim>\<open>ok\<close>, \<^verbatim>\<open>status\<close>,
  \<^verbatim>\<open>statusText\<close>, \<^verbatim>\<open>headers.get("content-type")\<close> (\<open>None\<close> for \<^verbatim>\<open>null\<close>) and
  the promises of the two body readers \<^verbatim>\<open>json()\<close> and \<^verbatim>\<open>text()\<close>.
\<close>

record response =
  ok :: bool
  status :: jsnumber
  statusText :: string
  contentType :: "string option"
  read_json :: "jsval async"
  read_text :: "string async"

type_synonym fetch_fn = "string \<Rightarrow> request_init \<Rightarrow> response async"

text \<open>One invocation of the transport function: the URL and the descriptor.\<close>

type_synonym fetch_call = "string \<times> request_init"

section \<open>Configuration (types/index.ts, config.ts)\<close>

text \<open>
  \<^verbatim>\<open>PipelinkConfig\<close> and \<^verbatim>\<open>Partial<PipelinkConfig>\<close>: every field may be absent
  (\<open>None\<close> is \<^verbatim>\<open>undefined\<close>).
\<close>

record pipelink_config =
  baseUrl :: "string option"
  network :: "string option"
  timeout :: "jsnumber option"
  fetch :: "fetch_fn option"

definition DEFAULT_TIMEOUT :: jsnumber where
  "DEFAULT_TIMEOUT = Num 30000"

definition DEFAULT_NETWORK :: string where
  "DEFAULT_NETWORK = ''mainnet-beta''"

text \<open>\<^verbatim>\<open>!config.baseUrl\<close>: absent or the empty string.\<close>

definition baseUrl_missing :: "pipelink_config \<Rightarrow> bool" where
  "baseUrl_missing c \<longleftrightarrow> (case baseUrl c of None \<Rightarrow> True | Some u \<Rightarrow> u = [])"

text \<open>\<^verbatim>\<open>t || d\<close> on an optional number\<close>

definition timeout_or :: "jsnumber option \<Rightarrow> jsnumber \<Rightarrow> jsnumber" where
  "timeout_or t d = (case t of None \<Rightarrow> d | Some n \<Rightarrow> if number_truthy n then n else d)"

text \<open>\<^verbatim>\<open>normalizeConfig\<close>; \<open>Inl\<close> is the thrown generic \<^verbatim>\<open>Error\<close>.\<close>

definition normalizeConfig :: "pipelink_config \<Rightarrow> thrown + pipelink_config" where
  "normalizeConfig config =
     (case baseUrl config of
        None \<Rightarrow> Inl (OtherError ''baseUrl is required'')
      | Some u \<Rightarrow>
          if u = [] then Inl (OtherError ''baseUrl is required'')
          else if \<not> startsWith u ''http://'' \<and> \<not> startsWith u ''https://''
            then Inl (OtherError ''baseUrl must start with http:// or https://'')
          else Inr \<lparr> baseUrl = Some (strip_trailing_slash u),
                     network = Some (case network config of
                                       None \<Rightarrow> DEFAULT_NETWORK
                                     | Some n \<Rightarrow> if n \<noteq> [] then n else DEFAULT_NETWORK),
                     timeout = Some (timeout_or (timeout config) DEFAULT_TIMEOUT),
                     fetch = fetch config \<rparr>)"

section \<open>The platform\<close>

text \<open>
  Built-ins of the JavaScript platform that the SDK calls and that are no code of the
  repository. They are parameters of the model:
  \<^item> \<^verbatim>\<open>JSON.stringify\<close>, applied by the SDK to truthy values only: it returns the
    JSON text, or throws (a \<^verbatim>\<open>TypeError\<close> on a \<^verbatim>\<open>BigInt\<close> and on a cyclic
    structure);
  \<^item> \<^verbatim>\<open>encodeURIComponent\<close>, which throws a \<^verbatim>\<open>URIError\<close> on malformed text;
  \<^item> the conversion of a number to text in a template literal;
  \<^item> the ambient \<^verbatim>\<open>globalThis.fetch\<close>.
\<close>

record platform =
  JSON_stringify :: "jsval \<Rightarrow> thrown + string"
  encodeURIComponent :: "string \<Rightarrow> thrown + string"
  number_toString :: "jsnumber \<Rightarrow> string"
  globalThis_fetch :: fetch_fn

section \<open>Timeout race (utils/timeout.ts)\<close>

text \<open>
  \<^verbatim>\<open>Promise.race([promise, createTimeoutPromise(timeout)])\<close>: the promise's own outcome
  if it settles before the timer fires, the timer's \<^verbatim>\<open>TimeoutError\<close> otherwise. The
  deadline is not checked for being positive.
\<close>

definition createTimeoutPromise :: "platform \<Rightarrow> jsnumber \<Rightarrow> thrown" where
  "createTimeoutPromise P ms =
     TimeoutError (''Request timeout after '' @ number_toString P ms @ ''ms'') ms"

definition withTimeout :: "platform \<Rightarrow> 'a async \<Rightarrow> jsnumber \<Rightarrow> 'a async" where
  "withTimeout P promise ms =
     (case promise of
        Pending \<Rightarrow> Rejected (createTimeoutPromise P ms)
      | Resolved v \<Rightarrow> Resolved v
      | Rejected e \<Rightarrow> Rejected e)"

section \<open>Transport (utils/http.ts)\<close>

text \<open>
  \<^verbatim>\<open>HttpRequestOptions & { fetch?, timeout }\<close>. \<open>None\<close> is an absent property;
  \<open>opt_body = Some v\<close> is a body value \<open>v\<close> supplied by the caller.
\<close>

record http_request_options =
  opt_method :: "string option"
  opt_headers :: "(string \<rightharpoonup> string) option"
  opt_body :: "jsval option"
  opt_timeout :: jsnumber
  opt_fetch :: "fetch_fn option"

text \<open>
  Object spread \<^verbatim>\<open>{ ...base, ...over }\<close>: the names of both, a name of \<open>over\<close>
  taking its value from \<open>over\<close>.
\<close>

definition spread :: "(string \<rightharpoonup> string) \<Rightarrow> (string \<rightharpoonup> string) \<Rightarrow> (string \<rightharpoonup> string)" where
  "spread base over = base ++ over"

text \<open>
  Lines 16 to 31 of \<^verbatim>\<open>httpRequest\<close>: the request descriptor. These lines stand before
  the \<^verbatim>\<open>try\<close> block, so what \<^verbatim>\<open>JSON.stringify\<close> throws (\<open>Inl\<close>) leaves
  \<^verbatim>\<open>httpRequest\<close> as it is, with no descriptor built.
\<close>

definition build_request :: "platform \<Rightarrow> http_request_options \<Rightarrow> thrown + request_init" where
  "build_request P options =
     (let m = (case opt_method options of None \<Rightarrow> ''GET'' | Some m \<Rightarrow> m);
          hs = (case opt_headers options of None \<Rightarrow> Map.empty | Some h \<Rightarrow> h);
          b = (case opt_body options of None \<Rightarrow> JUndefined | Some v \<Rightarrow> v);
          requestInit = \<lparr> http_method = m,
                          headers = spread [''Content-Type'' \<mapsto> ''application/json''] hs,
                          body = None \<rparr>
      in if truthy b
           then (case JSON_stringify P b of
                   Inl e \<Rightarrow> Inl e
                 | Inr json \<Rightarrow> Inr (requestInit \<lparr> body := Some json \<rparr>))
         else Inr requestInit)"

text \<open>
  Lines 39 to 48: reading the body by content type. The JSON reader for a JSON content
  type, else the text reader for an ok response, else nothing (\<^verbatim>\<open>undefined\<close>).
\<close>

definition read_body :: "response \<Rightarrow> jsval async" where
  "read_body resp =
     (if (case contentType resp of None \<Rightarrow> False
          | Some ct \<Rightarrow> ct \<noteq> [] \<and> includes_str ct ''application/json'')
      then read_json resp
      else if ok resp
        then (case read_text resp of
                Resolved txt \<Rightarrow> Resolved (JString txt)
              | Rejected e \<Rightarrow> Rejected e
              | Pending \<Rightarrow> Pending)
      else Resolved JUndefined)"

text \<open>Lines 39 to 60: the body read, then the status check.\<close>

definition parse_response :: "platform \<Rightarrow> response \<Rightarrow> jsval async" where
  "parse_response P resp =
     (case read_body resp of
           Resolved d \<Rightarrow>
             if \<not> ok resp
               then Rejected (HTTPError
                      (''HTTP '' @ number_toString P (status resp) @ '': '' @ statusText resp)
                      (status resp) (statusText resp) d)
             else Resolved d
         | Rejected e \<Rightarrow> Rejected e
         | Pending \<Rightarrow> Pending)"

text \<open>Lines 61 to 77: the \<^verbatim>\<open>catch\<close> block.\<close>

definition httpRequest_catch :: "thrown \<Rightarrow> thrown" where
  "httpRequest_catch e =
     (if instanceof_HTTPError e \<or> instanceof_NetworkError e then e
      else if instanceof_TypeError e
        then NetworkError (''Network request failed: '' @ error_message e) (Some e)
      else e)"

text \<open>Line 19: \<^verbatim>\<open>customFetch || globalThis.fetch\<close>\<close>

definition fetchFn :: "platform \<Rightarrow> fetch_fn option \<Rightarrow> fetch_fn" where
  "fetchFn P customFetch = (case customFetch of None \<Rightarrow> globalThis_fetch P | Some f \<Rightarrow> f)"

text \<open>
  \<^verbatim>\<open>httpRequest\<close>. The second component is the log of the invocations of the
  transport function: none when building the descriptor throws, else exactly one, with
  the URL and the descriptor built.
\<close>

definition httpRequest :: "platform \<Rightarrow> string \<Rightarrow> http_request_options \<Rightarrow> jsval async \<times> fetch_call list" where
  "httpRequest P url options =
     (case build_request P options of
        Inl e \<Rightarrow> (Rejected e, [])
      | Inr requestInit \<Rightarrow>
          let attempt =
                (case withTimeout P (fetchFn P (opt_fetch options) url requestInit)
                        (opt_timeout options) of
                   Resolved resp \<Rightarrow> parse_response P resp
                 | Rejected e \<Rightarrow> Rejected e
                 | Pending \<Rightarrow> Pending)
          in ((case attempt of
                 Rejected e \<Rightarrow> Rejected (httpRequest_catch e)
               | Resolved d \<Rightarrow> Resolved d
               | Pending \<Rightarrow> Pending),
              [(url, requestInit)]))"

definition get :: "platform \<Rightarrow> string \<Rightarrow> http_request_options \<Rightarrow> jsval async \<times> fetch_call list" where
  "get P url options = httpRequest P url (options \<lparr> opt_method := Some ''GET'' \<rparr>)"

definition post :: "platform \<Rightarrow> string \<Rightarrow> jsval \<Rightarrow> http_request_options \<Rightarrow> jsval async \<times> fetch_call list" where
  "post P url b options =
     httpRequest P url (options \<lparr> opt_method := Some ''POST'', opt_body := Some b \<rparr>)"

section \<open>Network operations\<close>

text \<open>The options object \<^verbatim>\<open>{ fetch: config.fetch, timeout }\<close> of the three call sites.\<close>

definition call_options :: "pipelink_config \<Rightarrow> http_request_options" where
  "call_options config =
     \<lparr> opt_method = None, opt_headers = None, opt_body = None,
       opt_timeout = timeout_or (timeout config) (Num 30000),
       opt_fetch = fetch config \<rparr>"

text \<open>
  The \<^verbatim>\<open>catch\<close> block shared by the three operations: both branches rethrow the
  error as it is.
\<close>

definition operation_catch :: "thrown \<Rightarrow> thrown" where
  "operation_catch e = (if instanceof_ValidationError e then e else e)"

text \<open>The text of a value already known to be a string.\<close>

fun string_of :: "jsval \<Rightarrow> string" where
  "string_of (JString s) = s"
| "string_of _ = []"

text \<open>\<^verbatim>\<open>Array.isArray(v)\<close> and \<^verbatim>\<open>v.length\<close> of an array\<close>

fun isArray :: "jsval \<Rightarrow> bool" where
  "isArray (JArray _) = True"
| "isArray _ = False"

fun array_length :: "jsval \<Rightarrow> nat" where
  "array_length (JArray xs) = length xs"
| "array_length _ = 0"

text \<open>
  The \<^verbatim>\<open>try\<close> block of each operation after the transport call: the awaited
  result, then the operation's checks on the response; whatever is thrown passes through
  the \<^verbatim>\<open>catch\<close> block.
\<close>

definition try_checks :: "jsval async \<Rightarrow> (jsval \<Rightarrow> jsval async) \<Rightarrow> jsval async" where
  "try_checks r checks =
     (case (case r of
              Resolved resp \<Rightarrow> checks resp
            | Rejected e \<Rightarrow> Rejected e
            | Pending \<Rightarrow> Pending) of
        Rejected e \<Rightarrow> Rejected (operation_catch e)
      | Resolved v \<Rightarrow> Resolved v
      | Pending \<Rightarrow> Pending)"

text \<open>
  \<^verbatim>\<open>verifySignature\<close> (auth/verify.ts). The payload is an object by its type; its
  properties are checked dynamically, so it is kept as a property list. Lines 46 to 50
  are the checks on the response.
\<close>

definition verify_response_checks :: "jsval \<Rightarrow> jsval async" where
  "verify_response_checks resp =
     (if \<not> truthy resp \<or> typeof resp \<noteq> ''object''
        then Rejected (ValidationError ''Invalid response from auth verify endpoint'')
      else Resolved resp)"

definition verifySignature :: "platform \<Rightarrow> (string \<times> jsval) list \<Rightarrow> pipelink_config \<Rightarrow> jsval async \<times> fetch_call list" where
  "verifySignature P payload config =
     (if \<not> truthy (get_prop (JObject payload) ''wallet'')
        then (Rejected (ValidationError ''Wallet address is required''), [])
      else if \<not> truthy (get_prop (JObject payload) ''message'')
        then (Rejected (ValidationError ''Message is required''), [])
      else if \<not> isArray (get_prop (JObject payload) ''signature'')
              \<or> array_length (get_prop (JObject payload) ''signature'') = 0
        then (Rejected (ValidationError ''Valid signature array is required''), [])
      else case baseUrl config of
        None \<Rightarrow> (Rejected (ValidationError ''SDK config is invalid''), [])
      | Some base \<Rightarrow>
          if base = [] then (Rejected (ValidationError ''SDK config is invalid''), [])
          else
            let url = base @ ''/api/auth/verify'';
                (r, calls) = post P url (JObject payload) (call_options config)
            in (try_checks r verify_response_checks, calls))"

text \<open>
  \<^verbatim>\<open>getWalletBalance\<close> (wallet/balance.ts). Lines 42 to 54 are the checks on the
  response. \<^verbatim>\<open>encodeURIComponent\<close> is called before the \<^verbatim>\<open>try\<close> block.
\<close>

definition balance_response_checks :: "jsval \<Rightarrow> jsval async" where
  "balance_response_checks resp =
     (if \<not> truthy resp \<or> typeof resp \<noteq> ''object''
        then Rejected (ValidationError ''Invalid response from wallet balance endpoint'')
      else if typeof (get_prop resp ''balance'') \<noteq> ''number''
        then Rejected (ValidationError ''Balance must be a number'')
      else if get_prop resp ''unit'' \<noteq> JString ''SOL''
        then Rejected (ValidationError ''Unit must be SOL'')
      else Resolved resp)"

definition getWalletBalance :: "platform \<Rightarrow> jsval \<Rightarrow> pipelink_config \<Rightarrow> jsval async \<times> fetch_call list" where
  "getWalletBalance P address config =
     (if \<not> truthy address \<or> typeof address \<noteq> ''string''
        then (Rejected (ValidationError ''Valid wallet address is required''), [])
      else if length (string_of address) = 0
        then (Rejected (ValidationError ''Wallet address cannot be empty''), [])
      else case baseUrl config of
        None \<Rightarrow> (Rejected (ValidationError ''SDK config is invalid''), [])
      | Some base \<Rightarrow>
          if base = [] then (Rejected (ValidationError ''SDK config is invalid''), [])
          else case encodeURIComponent P (string_of address) of
            Inl e \<Rightarrow> (Rejected e, [])
          | Inr encoded \<Rightarrow>
              let url = base @ ''/api/wallet/balance?address='' @ encoded;
                  (r, calls) = get P url (call_options config)
              in (try_checks r balance_response_checks, calls))"

text \<open>
  \<^verbatim>\<open>createPipeline\<close> (pipeline/create.ts). Lines 46 to 56 are the checks on the
  response.
\<close>

definition pipeline_response_checks :: "jsval \<Rightarrow> jsval async" where
  "pipeline_response_checks resp =
     (if \<not> truthy resp \<or> typeof resp \<noteq> ''object''
        then Rejected (ValidationError ''Invalid response from pipeline create endpoint'')
      else if \<not> truthy (get_prop resp ''pipelineId'')
              \<or> typeof (get_prop resp ''pipelineId'') \<noteq> ''string''
        then Rejected (ValidationError ''Pipeline ID is required in response'')
      else if \<not> truthy (get_prop resp ''status'')
              \<or> typeof (get_prop resp ''status'') \<noteq> ''string''
        then Rejected (ValidationError ''Pipeline status is required in response'')
      else Resolved resp)"

definition createPipeline :: "platform \<Rightarrow> jsval \<Rightarrow> pipelink_config \<Rightarrow> jsval async \<times> fetch_call list" where
  "createPipeline P pipelineConfig config =
     (if \<not> truthy pipelineConfig \<or> typeof pipelineConfig \<noteq> ''object''
        then (Rejected (ValidationError ''Pipeline configuration is required''), [])
      else if \<not> truthy (get_prop pipelineConfig ''name'')
              \<or> typeof (get_prop pipelineConfig ''name'') \<noteq> ''string''
        then (Rejected (ValidationError ''Pipeline name is required''), [])
      else if length (string_of (get_prop pipelineConfig ''name'')) = 0
        then (Rejected (ValidationError ''Pipeline name cannot be empty''), [])
      else case baseUrl config of
        None \<Rightarrow> (Rejected (ValidationError ''SDK config is invalid''), [])
      | Some base \<Rightarrow>
          if base = [] then (Rejected (ValidationError ''SDK config is invalid''), [])
          else
            let url = base @ ''/api/pipeline/create'';
                (r, calls) = post P url pipelineConfig (call_options config)
            in (try_checks r pipeline_response_checks, calls))"

section \<open>Text encoding on the platform\<close>

text \<open>
  \<^verbatim>\<open>signMessage\<close> passes its message through \<^verbatim>\<open>new TextEncoder().encode\<close> and
  \<^verbatim>\<open>new TextDecoder().decode\<close>, whose results depend on the code units of the text.
  So the message text is a JavaScript string as the language has it, a sequence of 16-bit
  code units, and a \<^verbatim>\<open>Uint8Array\<close> is a sequence of bytes. Both built-ins are
  modelled after the Encoding Standard, which every platform of the SDK implements.
\<close>

type_synonym jsstring = "16 word list"
type_synonym bytes = "8 word list"

definition is_high_surrogate :: "nat \<Rightarrow> bool" where
  "is_high_surrogate u \<longleftrightarrow> 0xD800 \<le> u \<and> u \<le> 0xDBFF"

definition is_low_surrogate :: "nat \<Rightarrow> bool" where
  "is_low_surrogate u \<longleftrightarrow> 0xDC00 \<le> u \<and> u \<le> 0xDFFF"

text \<open>
  Conversion of a string to scalar values, as \<^verbatim>\<open>encode\<close> does on its argument: a
  surrogate pair is one code point, a surrogate outside a pair becomes U+FFFD.
\<close>

fun scalar_values :: "nat list \<Rightarrow> nat list" where
  "scalar_values [] = []"
| "scalar_values [u] =
     (if is_high_surrogate u \<or> is_low_surrogate u then [0xFFFD] else [u])"
| "scalar_values (u # v # rest) =
     (if is_high_surrogate u \<and> is_low_surrogate v
        then (0x10000 + (u - 0xD800) * 0x400 + (v - 0xDC00)) # scalar_values rest
      else if is_high_surrogate u \<or> is_low_surrogate u
        then 0xFFFD # scalar_values (v # rest)
      else u # scalar_values (v # rest))"

text \<open>The UTF-8 encoder: the bytes of one scalar value.\<close>

definition utf8_encode :: "nat \<Rightarrow> nat list" where
  "utf8_encode c =
     (if c < 0x80 then [c]
      else if c < 0x800 then [0xC0 + c div 0x40, 0x80 + c mod 0x40]
      else if c < 0x10000
        then [0xE0 + c div 0x1000, 0x80 + (c div 0x40) mod 0x40, 0x80 + c mod 0x40]
      else [0xF0 + c div 0x40000, 0x80 + (c div 0x1000) mod 0x40,
            0x80 + (c div 0x40) mod 0x40, 0x80 + c mod 0x40])"

definition TextEncoder_encode :: "jsstring \<Rightarrow> bytes" where
  "TextEncoder_encode s = map of_nat (concat (map utf8_encode (scalar_values (map unat s))))"

text \<open>
  The UTF-8 decoder of the standard, with replacement of errors: its state is the code point
  under construction, the bytes needed and seen, and the bounds on the next byte.
\<close>

record utf8_state =
  code_point :: nat
  bytes_needed :: nat
  bytes_seen :: nat
  lower_boundary :: nat
  upper_boundary :: nat

definition utf8_initial :: utf8_state where
  "utf8_initial =
     \<lparr> code_point = 0, bytes_needed = 0, bytes_seen = 0,
       lower_boundary = 0x80, upper_boundary = 0xBF \<rparr>"

function utf8_decoder :: "utf8_state \<Rightarrow> nat list \<Rightarrow> nat list" where
  "utf8_decoder st [] = (if bytes_needed st \<noteq> 0 then [0xFFFD] else [])"
| "utf8_decoder st (b # bs) =
     (if bytes_needed st = 0 then
        (if b \<le> 0x7F then b # utf8_decoder utf8_initial bs
         else if 0xC2 \<le> b \<and> b \<le> 0xDF
           then utf8_decoder (utf8_initial \<lparr> code_point := b - 0xC0, bytes_needed := 1 \<rparr>) bs
         else if 0xE0 \<le> b \<and> b \<le> 0xEF
           then utf8_decoder (utf8_initial \<lparr> code_point := b - 0xE0, bytes_needed := 2,
                    lower_boundary := (if b = 0xE0 then 0xA0 else 0x80),
                    upper_boundary := (if b = 0xED then 0x9F else 0xBF) \<rparr>) bs
         else if 0xF0 \<le> b \<and> b \<le> 0xF4
           then utf8_decoder (utf8_initial \<lparr> code_point := b - 0xF0, bytes_needed := 3,
                    lower_boundary := (if b = 0xF0 then 0x90 else 0x80),
                    upper_boundary := (if b = 0xF4 then 0x8F else 0xBF) \<rparr>) bs
         else 0xFFFD # utf8_decoder utf8_initial bs)
      else if b < lower_boundary st \<or> upper_boundary st < b
        then 0xFFFD # utf8_decoder utf8_initial (b # bs)
      else
        (let cp = code_point st * 0x40 + (b - 0x80) in
         if bytes_seen st + 1 \<noteq> bytes_needed st
           then utf8_decoder (st \<lparr> code_point := cp, bytes_seen := bytes_seen st + 1,
                    lower_boundary := 0x80, upper_boundary := 0xBF \<rparr>) bs
         else cp # utf8_decoder utf8_initial bs))"
  by pat_completeness auto
termination
  by (relation "measure (\<lambda>(st, bs). 2 * length bs + (if bytes_needed st = 0 then 0 else 1))")
     (auto simp: utf8_initial_def)

text \<open>The UTF-16 code units of one code point.\<close>

definition utf16_encode :: "nat \<Rightarrow> nat list" where
  "utf16_encode c =
     (if c < 0x10000 then [c]
      else [0xD800 + (c - 0x10000) div 0x400, 0xDC00 + (c - 0x10000) mod 0x400])"

text \<open>
  \<^verbatim>\<open>new TextDecoder()\<close> has \<^verbatim>\<open>ignoreBOM\<close> false: a byte order mark U+FEFF at the
  start of the decoded text is dropped.
\<close>

fun drop_BOM :: "nat list \<Rightarrow> nat list" where
  "drop_BOM [] = []"
| "drop_BOM (c # cs) = (if c = 0xFEFF then cs else c # cs)"

definition TextDecoder_decode :: "bytes \<Rightarrow> jsstring" where
  "TextDecoder_decode bs =
     map of_nat (concat (map utf16_encode (drop_BOM (utf8_decoder utf8_initial (map unat bs)))))"

section \<open>Signing (auth/signer.ts)\<close>

text \<open>
  \<^verbatim>\<open>WalletAdapter\<close> as \<^verbatim>\<open>signMessage\<close> uses it. The adapter itself may be
  \<^verbatim>\<open>null\<close>, and so may its two members. \<open>adapter_signMessage\<close> is the member
  \<^verbatim>\<open>signMessage\<close>, as it behaves on the one call that the operation makes: called on
  a byte array, it throws or rejects, resolves with a signature (\<open>None\<close> for
  \<^verbatim>\<open>null\<close> or \<^verbatim>\<open>undefined\<close>), or does not settle. The array is handed over by
  reference and the signer may write to it: \<open>array_after\<close> is what the array holds when
  the operation reads it again after the \<^verbatim>\<open>await\<close> (line 49). A signer with state is
  another function on another call, so nothing is assumed to relate two calls.
  \<open>publicKey\<close> holds what \<^verbatim>\<open>publicKey.toBase58()\<close> does: it returns the address or
  throws.
\<close>

record signer_reply =
  signer_result :: "bytes option async"
  array_after :: bytes

record wallet_adapter =
  adapter_signMessage :: "(bytes \<Rightarrow> signer_reply) option"
  publicKey :: "(thrown + string) option"

datatype sign_input = StringMessage jsstring | BytesMessage bytes

record sign_result =
  address :: string
  message :: jsstring
  signature :: bytes

text \<open>Lines 52 to 60: the \<^verbatim>\<open>catch\<close> block of \<^verbatim>\<open>signMessage\<close>.\<close>

definition signMessage_catch :: "thrown \<Rightarrow> thrown" where
  "signMessage_catch e =
     (if instanceof_ValidationError e then e
      else ValidationError (''Failed to sign message: '' @
             (if instanceof_Error e then error_message e else ''Unknown error'')))"

text \<open>
  Lines 31 to 33: the bytes handed to the signer. For a string they are a fresh array,
  for a byte message they are the caller's own array.
\<close>

definition messageBytes :: "sign_input \<Rightarrow> bytes" where
  "messageBytes msg = (case msg of
                         StringMessage s \<Rightarrow> TextEncoder_encode s
                       | BytesMessage b \<Rightarrow> b)"

definition signMessage :: "wallet_adapter option \<Rightarrow> sign_input \<Rightarrow> sign_result async" where
  "signMessage walletAdapter msg =
     (case walletAdapter of
        None \<Rightarrow> Rejected (ValidationError ''Wallet adapter is required'')
      | Some w \<Rightarrow>
      (case adapter_signMessage w of
        None \<Rightarrow> Rejected (ValidationError ''Wallet adapter must support signMessage'')
      | Some sign \<Rightarrow>
      (case publicKey w of
        None \<Rightarrow> Rejected (ValidationError ''Wallet adapter must have a publicKey'')
      | Some toBase58 \<Rightarrow>
          if length (messageBytes msg) = 0
               then Rejected (ValidationError ''Message cannot be empty'')
             else
               (case (case signer_result (sign (messageBytes msg)) of
                        Resolved sig \<Rightarrow>
                          (case sig of
                             None \<Rightarrow> Rejected (ValidationError ''Wallet returned invalid signature'')
                           | Some sg \<Rightarrow>
                               if length sg = 0
                                 then Rejected (ValidationError ''Wallet returned invalid signature'')
                               else (case toBase58 of
                                       Inl e \<Rightarrow> Rejected e
                                     | Inr a \<Rightarrow>
                                         Resolved \<lparr> address = a,
                                           message = (case msg of
                                                        StringMessage s \<Rightarrow> s
                                                      | BytesMessage b \<Rightarrow>
                                                          TextDecoder_decode
                                                            (array_after (sign b))),
                                           signature = sg \<rparr>))
                      | Rejected e \<Rightarrow> Rejected e
                      | Pending \<Rightarrow> Pending) of
                  Rejected e \<Rightarrow> Rejected (signMessage_catch e)
                | Resolved r \<Rightarrow> Resolved r
                | Pending \<Rightarrow> Pending))))"

section \<open>Notions used in the statements\<close>

text \<open>Unicode scalar values: code points that are not surrogates.\<close>

definition is_scalar_value :: "nat \<Rightarrow> bool" where
  "is_scalar_value c \<longleftrightarrow> c < 0x110000 \<and> \<not> (0xD800 \<le> c \<and> c \<le> 0xDFFF)"

text \<open>Well-formed UTF-16: every surrogate is part of a pair, high before low.\<close>

fun well_formed_utf16 :: "nat list \<Rightarrow> bool" where
  "well_formed_utf16 [] = True"
| "well_formed_utf16 [u] = (\<not> is_high_surrogate u \<and> \<not> is_low_surrogate u)"
| "well_formed_utf16 (u # v # rest) =
     (if is_high_surrogate u then is_low_surrogate v \<and> well_formed_utf16 rest
      else \<not> is_low_surrogate u \<and> well_formed_utf16 (v # rest))"




section \<open>Example collaborators\<close>

text \<open>
  Concrete collaborators for the examples. The stand-ins for the platform agree with it
  on the values the examples pass: the printing of the numbers named below,
  \<^verbatim>\<open>JSON.stringify\<close> on truthy values whose strings have no character to escape and
  whose numbers are among those (it throws its \<^verbatim>\<open>TypeError\<close> on a value that holds a
  \<^verbatim>\<open>BigInt\<close>, so the text given for a \<^verbatim>\<open>BigInt\<close> below is never used), and
  \<^verbatim>\<open>encodeURIComponent\<close> on text of unreserved characters.
\<close>

fun example_number_toString :: "jsnumber \<Rightarrow> string" where
  "example_number_toString (Num r) =
     (if r = 200 then ''200'' else if r = 404 then ''404'' else if r = 5000 then ''5000''
      else if r = 30000 then ''30000'' else if r = 1 then ''1'' else if r = 2 then ''2''
      else if r = 3 then ''3'' else if r = - 1 then ''-1'' else if r = 21 / 2 then ''10.5''
      else ''0'')"
| "example_number_toString NaN = ''NaN''"
| "example_number_toString PosInfinity = ''Infinity''"
| "example_number_toString NegInfinity = ''-Infinity''"

definition quote_json :: "string \<Rightarrow> string" where
  "quote_json s = CHR 0x22 # s @ [CHR 0x22]"

fun join_comma :: "string list \<Rightarrow> string" where
  "join_comma [] = []"
| "join_comma [x] = x"
| "join_comma (x # y # r) = x @ '','' @ join_comma (y # r)"

fun example_stringify :: "jsval \<Rightarrow> string" where
  "example_stringify JUndefined = ''null''"
| "example_stringify JNull = ''null''"
| "example_stringify (JBool b) = (if b then ''true'' else ''false'')"
| "example_stringify (JNumber n) =
     (case n of Num r \<Rightarrow> example_number_toString n | _ \<Rightarrow> ''null'')"
| "example_stringify (JString s) = quote_json s"
| "example_stringify (JBigInt n) = []"
| "example_stringify (JArray xs) = ''['' @ join_comma (map example_stringify xs) @ '']''"
| "example_stringify (JObject kvs) =
     ''{'' @ join_comma (map (\<lambda>kv. quote_json (fst kv) @ '':'' @ example_stringify (snd kv))
                          (filter (\<lambda>kv. snd kv \<noteq> JUndefined) kvs)) @ ''}''"

fun has_BigInt :: "jsval \<Rightarrow> bool" where
  "has_BigInt (JBigInt n) = True"
| "has_BigInt (JArray xs) = list_ex has_BigInt xs"
| "has_BigInt (JObject kvs) = list_ex (\<lambda>kv. has_BigInt (snd kv)) kvs"
| "has_BigInt _ = False"

definition example_JSON_stringify :: "jsval \<Rightarrow> thrown + string" where
  "example_JSON_stringify v =
     (if has_BigInt v then Inl (TypeError ''Do not know how to serialize a BigInt'')
      else Inr (example_stringify v))"

definition example_platform :: platform where
  "example_platform =
     \<lparr> JSON_stringify = example_JSON_stringify,
       encodeURIComponent = Inr,
       number_toString = example_number_toString,
       globalThis_fetch = (\<lambda>url init. Pending) \<rparr>"

text \<open>
  A response as the tests build it: \<^verbatim>\<open>new Response(JSON.stringify(v), { status, headers:
  { "content-type": "application/json" } })\<close>.
\<close>

definition json_response :: "jsnumber \<Rightarrow> jsval \<Rightarrow> response" where
  "json_response st v =
     \<lparr> ok = (case st of Num r \<Rightarrow> 200 \<le> r \<and> r \<le> 299 | _ \<Rightarrow> False),
       status = st, statusText = [],
       contentType = Some ''application/json'',
       read_json = Resolved v,
       read_text = Resolved (example_stringify v) \<rparr>"

definition example_config :: "fetch_fn \<Rightarrow> pipelink_config" where
  "example_config f =
     \<lparr> baseUrl = Some ''https://api.example.com'', network = Some ''mainnet-beta'',
       timeout = Some (Num 5000), fetch = Some f \<rparr>"

text \<open>A wallet whose signer behaves as given, with the address \<^verbatim>\<open>wallet123\<close>.\<close>

definition example_adapter :: "(bytes \<Rightarrow> signer_reply) \<Rightarrow> wallet_adapter" where
  "example_adapter sign =
     \<lparr> adapter_signMessage = Some sign, publicKey = Some (Inr ''wallet123'') \<rparr>"

section \<open>The decoder inverts the encoder\<close>

declare utf8_decoder.simps [simp del]

lemma decode_1:
  assumes "a < 0x80"
  shows "utf8_decoder utf8_initial (a # bs) = a # utf8_decoder utf8_initial bs"
  using assms by (simp add: utf8_decoder.simps utf8_initial_def)

lemma decode_2:
  assumes "2 \<le> a" "a < 32" "b < 64"
  shows "utf8_decoder utf8_initial ((0xC0 + a) # (0x80 + b) # bs)
         = (a * 64 + b) # utf8_decoder utf8_initial bs"
  using assms by (simp add: utf8_decoder.simps utf8_initial_def)

lemma decode_3:
  assumes "a < 16" "b < 64" "d < 64" "a = 0 \<longrightarrow> 32 \<le> b" "a = 13 \<longrightarrow> b < 32"
  shows "utf8_decoder utf8_initial ((0xE0 + a) # (0x80 + b) # (0x80 + d) # bs)
         = ((a * 64 + b) * 64 + d) # utf8_decoder utf8_initial bs"
  using assms by (auto simp: utf8_decoder.simps utf8_initial_def)

lemma decode_4:
  assumes "a < 5" "b < 64" "d < 64" "e < 64" "a = 0 \<longrightarrow> 16 \<le> b" "a = 4 \<longrightarrow> b < 16"
  shows "utf8_decoder utf8_initial ((0xF0 + a) # (0x80 + b) # (0x80 + d) # (0x80 + e) # bs)
         = (((a * 64 + b) * 64 + d) * 64 + e) # utf8_decoder utf8_initial bs"
  using assms by (auto simp: utf8_decoder.simps utf8_initial_def)

lemma digits_2:
  fixes c :: nat
  assumes "0x80 \<le> c" "c < 0x800"
  shows "2 \<le> c div 64 \<and> c div 64 < 32"
proof -
  have "c = c div 64 * 64 + c mod 64" "c mod 64 < 64" by simp_all
  with assms show ?thesis by linarith
qed

lemma digits_3:
  fixes c :: nat
  assumes "0x800 \<le> c" "c < 0x10000" "\<not> (0xD800 \<le> c \<and> c \<le> 0xDFFF)"
  shows "c div 4096 < 16 \<and> (c div 4096 = 0 \<longrightarrow> 32 \<le> (c div 64) mod 64) \<and>
    (c div 4096 = 13 \<longrightarrow> (c div 64) mod 64 < 32)"
proof -
  define a b d where "a = c div 64 div 64" and "b = (c div 64) mod 64" and "d = c mod 64"
  have a: "c div 4096 = a" by (simp add: a_def div_mult2_eq)
  have "c div 64 = a * 64 + b" by (simp add: a_def b_def)
  moreover have "c = c div 64 * 64 + d" by (simp add: d_def)
  ultimately have c: "c = a * 4096 + b * 64 + d" by simp
  have "b < 64" "d < 64" by (simp_all add: b_def d_def)
  with assms c have "a < 16 \<and> (a = 0 \<longrightarrow> 32 \<le> b) \<and> (a = 13 \<longrightarrow> b < 32)"
    by linarith
  then show ?thesis by (simp add: a b_def)
qed

lemma digits_4:
  fixes c :: nat
  assumes "0x10000 \<le> c" "c < 0x110000"
  shows "c div 262144 < 5 \<and> (c div 262144 = 0 \<longrightarrow> 16 \<le> (c div 4096) mod 64) \<and>
    (c div 262144 = 4 \<longrightarrow> (c div 4096) mod 64 < 16)"
proof -
  define a b d where "a = c div 4096 div 64" and "b = (c div 4096) mod 64" and "d = c mod 4096"
  have a: "c div 262144 = a" by (simp add: a_def div_mult2_eq)
  have "c div 4096 = a * 64 + b" by (simp add: a_def b_def)
  moreover have "c = c div 4096 * 4096 + d" by (simp add: d_def)
  ultimately have c: "c = a * 262144 + b * 4096 + d" by simp
  have "b < 64" "d < 4096" by (simp_all add: b_def d_def)
  with assms c have "a < 5 \<and> (a = 0 \<longrightarrow> 16 \<le> b) \<and> (a = 4 \<longrightarrow> b < 16)"
    by linarith
  then show ?thesis by (simp add: a b_def)
qed

lemma join_3:
  fixes c :: nat
  shows "(c div 4096 * 64 + (c div 64) mod 64) * 64 + c mod 64 = c"
proof -
  have "c div 4096 = c div 64 div 64" by (simp add: div_mult2_eq)
  then have "c div 4096 * 64 + (c div 64) mod 64 = c div 64" by simp
  then show ?thesis by simp
qed

lemma join_4:
  fixes c :: nat
  shows "((c div 262144 * 64 + (c div 4096) mod 64) * 64 + (c div 64) mod 64) * 64 + c mod 64 = c"
proof -
  have "c div 262144 = c div 4096 div 64" by (simp add: div_mult2_eq)
  then have "c div 262144 * 64 + (c div 4096) mod 64 = c div 4096" by simp
  with join_3 [of c] show ?thesis by simp
qed

lemma utf8_decoder_encode:
  assumes "is_scalar_value c"
  shows "utf8_decoder utf8_initial (utf8_encode c @ bs) = c # utf8_decoder utf8_initial bs"
proof -
  consider "c < 0x80" | "0x80 \<le> c" "c < 0x800" | "0x800 \<le> c" "c < 0x10000"
    | "0x10000 \<le> c"
    by linarith
  then show ?thesis
  proof cases
    case 1
    have enc: "utf8_encode c = [c]"
      using 1 by (simp add: utf8_encode_def)
    show ?thesis unfolding enc using decode_1 [OF 1] by simp
  next
    case 2
    have enc: "utf8_encode c = [0xC0 + c div 64, 0x80 + c mod 64]"
      using 2 by (simp add: utf8_encode_def)
    from digits_2 [OF 2] have "2 \<le> c div 64" "c div 64 < 32" by simp_all
    from decode_2 [OF this, of "c mod 64" bs] show ?thesis
      unfolding enc by simp
  next
    case 3
    have enc: "utf8_encode c = [0xE0 + c div 4096, 0x80 + (c div 64) mod 64, 0x80 + c mod 64]"
      using 3 by (simp add: utf8_encode_def)
    from assms have "\<not> (0xD800 \<le> c \<and> c \<le> 0xDFFF)" by (simp add: is_scalar_value_def)
    from digits_3 [OF 3 this] have "c div 4096 < 16"
      "c div 4096 = 0 \<longrightarrow> 32 \<le> (c div 64) mod 64"
      "c div 4096 = 13 \<longrightarrow> (c div 64) mod 64 < 32" by blast+
    from decode_3 [OF this(1) _ _ this(2,3), of "c mod 64" bs] show ?thesis
      unfolding enc join_3 by simp
  next
    case 4
    have enc: "utf8_encode c = [0xF0 + c div 262144, 0x80 + (c div 4096) mod 64,
                               0x80 + (c div 64) mod 64, 0x80 + c mod 64]"
      using 4 by (simp add: utf8_encode_def)
    from assms have "c < 0x110000" by (simp add: is_scalar_value_def)
    from digits_4 [OF 4 this] have "c div 262144 < 5"
      "c div 262144 = 0 \<longrightarrow> 16 \<le> (c div 4096) mod 64"
      "c div 262144 = 4 \<longrightarrow> (c div 4096) mod 64 < 16" by blast+
    from decode_4 [OF this(1) _ _ _ this(2,3), of "(c div 64) mod 64" "c mod 64" bs]
    show ?thesis unfolding enc join_4 by simp
  qed
qed

lemma utf8_decoder_concat:
  assumes "list_all is_scalar_value cs"
  shows "utf8_decoder utf8_initial (concat (map utf8_encode cs)) = cs"
  using assms
proof (induction cs)
  case Nil
  show ?case by (simp add: utf8_decoder.simps utf8_initial_def)
next
  case (Cons c cs)
  then show ?case by (simp add: utf8_decoder_encode)
qed

lemma utf8_encode_bytes:
  assumes "is_scalar_value c"
  shows "list_all (\<lambda>b. b < 256) (utf8_encode c)"
proof -
  have m: "\<And>x::nat. 0x80 + x mod 64 < 256"
    by (simp add: less_imp_add_positive trans_less_add2 add.commute) 
  consider "c < 0x80" | "0x80 \<le> c" "c < 0x800" | "0x800 \<le> c" "c < 0x10000"
    | "0x10000 \<le> c"
    by linarith
  then show ?thesis
  proof cases
    case 1
    then show ?thesis by (simp add: utf8_encode_def)
  next
    case 2
    have enc: "utf8_encode c = [0xC0 + c div 64, 0x80 + c mod 64]"
      using 2 by (simp add: utf8_encode_def)
    from digits_2 [OF 2] have "0xC0 + c div 64 < 256" by linarith
    then show ?thesis unfolding enc using m by simp
  next
    case 3
    have enc: "utf8_encode c = [0xE0 + c div 4096, 0x80 + (c div 64) mod 64, 0x80 + c mod 64]"
      using 3 by (simp add: utf8_encode_def)
    from assms have "\<not> (0xD800 \<le> c \<and> c \<le> 0xDFFF)" by (simp add: is_scalar_value_def)
    from digits_3 [OF 3 this] have "0xE0 + c div 4096 < 256" by linarith
    then show ?thesis unfolding enc using m by simp
  next
    case 4
    have enc: "utf8_encode c = [0xF0 + c div 262144, 0x80 + (c div 4096) mod 64,
                               0x80 + (c div 64) mod 64, 0x80 + c mod 64]"
      using 4 by (simp add: utf8_encode_def)
    from assms have "c < 0x110000" by (simp add: is_scalar_value_def)
    from digits_4 [OF 4 this] have "0xF0 + c div 262144 < 256" by linarith
    then show ?thesis unfolding enc using m by simp
  qed
qed

lemma surrogate_pair_units:
  assumes "is_high_surrogate u" "is_low_surrogate v"
  shows "utf16_encode (0x10000 + (u - 0xD800) * 0x400 + (v - 0xDC00)) = [u, v]"
    and "is_scalar_value (0x10000 + (u - 0xD800) * 0x400 + (v - 0xDC00))"
    and "0x10000 + (u - 0xD800) * 0x400 + (v - 0xDC00) \<noteq> 0xFEFF"
proof -
  define h l where "h = u - 0xD800" and "l = v - 0xDC00"
  from assms have h: "h < 0x400" "u = 0xD800 + h" and l: "l < 0x400" "v = 0xDC00 + l"
    unfolding h_def l_def is_high_surrogate_def is_low_surrogate_def by linarith+
  have "(h * 0x400 + l) div 0x400 = h" "(h * 0x400 + l) mod 0x400 = l"
    using l(1) by simp_all
  then show "utf16_encode (0x10000 + (u - 0xD800) * 0x400 + (v - 0xDC00)) = [u, v]"
    by (simp add: utf16_encode_def h(2) l(2) add.assoc)
  have "h * 0x400 + l < 0x100000" using h(1) l(1) by linarith
  then show "is_scalar_value (0x10000 + (u - 0xD800) * 0x400 + (v - 0xDC00))"
    by (simp add: is_scalar_value_def h(2) l(2))
  show "0x10000 + (u - 0xD800) * 0x400 + (v - 0xDC00) \<noteq> 0xFEFF"
    by simp
qed

lemma utf16_scalar_values:
  assumes "well_formed_utf16 us" "list_all (\<lambda>u. u < 0x10000) us"
  shows "concat (map utf16_encode (scalar_values us)) = us \<and>
         list_all is_scalar_value (scalar_values us)"
  using assms
proof (induction us rule: scalar_values.induct)
  case 1
  show ?case by simp
next
  case (2 u)
  then show ?case
    by (auto simp: utf16_encode_def is_scalar_value_def is_high_surrogate_def
        is_low_surrogate_def)
next
  case (3 u v rest)
  show ?case
  proof (cases "is_high_surrogate u")
    case True
    with "3.prems" have v: "is_low_surrogate v" and wf: "well_formed_utf16 rest"
      and lt: "list_all (\<lambda>u. u < 0x10000) rest"
      by simp_all
    from "3.IH" True v wf lt
    have "concat (map utf16_encode (scalar_values rest)) = rest \<and>
          list_all is_scalar_value (scalar_values rest)" by simp
    with surrogate_pair_units(1,2) [OF True v] True v show ?thesis by simp
  next
    case False
    with "3.prems" have nl: "\<not> is_low_surrogate u" and wf: "well_formed_utf16 (v # rest)"
      and lt: "list_all (\<lambda>u. u < 0x10000) (v # rest)" and u: "u < 0x10000"
      by simp_all
    from "3.IH" False nl wf lt
    have "concat (map utf16_encode (scalar_values (v # rest))) = v # rest \<and>
          list_all is_scalar_value (scalar_values (v # rest))" by simp
    moreover from False nl u have "utf16_encode u = [u]" "is_scalar_value u"
      by (auto simp: utf16_encode_def is_scalar_value_def is_high_surrogate_def
          is_low_surrogate_def)
    ultimately show ?thesis using False nl by simp
  qed
qed

lemma drop_BOM_scalar_values:
  assumes "us = [] \<or> hd us \<noteq> 0xFEFF"
  shows "drop_BOM (scalar_values us) = scalar_values us"
proof (cases us rule: scalar_values.cases)
  case 1
  then show ?thesis by simp
next
  case (2 u)
  with assms show ?thesis by simp
next
  case (3 u v rest)
  with assms surrogate_pair_units(3) [of u v] show ?thesis by simp
qed

lemma TextDecoder_TextEncoder:
  assumes "well_formed_utf16 (map unat s)" and "s = [] \<or> hd s \<noteq> 0xFEFF"
  shows "TextDecoder_decode (TextEncoder_encode s) = s"
proof -
  define us where "us = map unat s"
  define cs where "cs = scalar_values us"
  define bs where "bs = concat (map utf8_encode cs)"
  have lt: "list_all (\<lambda>u. u < 0x10000) us"
    unfolding us_def list_all_iff using unsigned_less [where 'b = 16] by fastforce
  from utf16_scalar_values [OF assms(1) [folded us_def] lt]
  have units: "concat (map utf16_encode cs) = us" and sc: "list_all is_scalar_value cs"
    by (simp_all add: cs_def)
  from sc have "list_all (\<lambda>b. b < 256) bs"
    unfolding bs_def by (induction cs) (simp_all add: utf8_encode_bytes)
  then have bytes: "map (unat \<circ> (of_nat :: nat \<Rightarrow> 8 word)) bs = bs"
    by (induction bs) (simp_all add: unat_of_nat)
  from assms(2) have "us = [] \<or> hd us \<noteq> 0xFEFF"
    by (cases s) (auto simp: us_def dest: arg_cong [where f = "word_of_nat :: nat \<Rightarrow> 16 word"])
  then have bom: "drop_BOM cs = cs"
    unfolding cs_def by (rule drop_BOM_scalar_values)
  have "TextDecoder_decode (TextEncoder_encode s)
        = map of_nat (concat (map utf16_encode (drop_BOM (utf8_decoder utf8_initial bs))))"
    by (simp add: TextDecoder_decode_def TextEncoder_encode_def bytes
        us_def [symmetric] cs_def [symmetric] bs_def [symmetric])
  also have "\<dots> = map of_nat us"
    by (simp add: bs_def utf8_decoder_concat [OF sc] bom units)
  also have "\<dots> = s"
    by (simp add: us_def comp_def)
  finally show ?thesis .
qed

section \<open>Properties of the configuration normalizer\<close>

lemma startsWith_append: "startsWith (p @ s) p"
  by (simp add: startsWith_def)

lemma startsWith_length: "startsWith s p \<Longrightarrow> length p \<le> length s"
  by (metis startsWith_def length_take min.cobounded1)

lemma startsWith_butlast:
  assumes "startsWith s p" and "length p < length s"
  shows "startsWith (butlast s) p"
proof -
  have "take (length p) (butlast s) = take (length p) s"
    using assms(2) by (simp add: take_butlast)
  with assms(1) show ?thesis by (simp add: startsWith_def)
qed

text \<open>
  Off the two degenerate endpoints that consist of the scheme alone, normalization keeps
  the scheme, leaves the endpoint non-empty and removes one trailing slash only.
\<close>

lemma normalizeConfig_endpoint:
  assumes "normalizeConfig c = Inr c'" and "baseUrl c = Some u"
    and "u \<noteq> ''http://''" and "u \<noteq> ''https://''"
  shows "\<exists>v. baseUrl c' = Some v \<and> v \<noteq> [] \<and>
           (startsWith v ''http://'' \<or> startsWith v ''https://'') \<and>
           (if u \<noteq> [] \<and> last u = CHR ''/'' then u = v @ ''/'' else v = u)"
proof -
  from assms(1,2) have ok: "u \<noteq> []" "startsWith u ''http://'' \<or> startsWith u ''https://''"
    and c': "baseUrl c' = Some (strip_trailing_slash u)"
    by (auto simp: normalizeConfig_def split: if_splits)
  show ?thesis
  proof (cases "last u = CHR ''/''")
    case False
    with ok c' show ?thesis by (simp add: strip_trailing_slash_def)
  next
    case True
    with ok have v: "strip_trailing_slash u = butlast u" and u: "u = butlast u @ ''/''"
      by (simp_all add: strip_trailing_slash_def) (metis append_butlast_last_id)
    from ok(2) have "startsWith (butlast u) ''http://'' \<or> startsWith (butlast u) ''https://''"
    proof
      assume h: "startsWith u ''http://''"
      then have "length u \<ge> 7" using startsWith_length by fastforce
      moreover have "length u \<noteq> 7"
      proof
        assume "length u = 7"
        with h have "u = ''http://''" by (simp add: startsWith_def)
        with assms(3) show False by simp
      qed
      ultimately have "length ''http://'' < length u" by simp
      with h show ?thesis using startsWith_butlast by blast
    next
      assume h: "startsWith u ''https://''"
      then have "length u \<ge> 8" using startsWith_length by fastforce
      moreover have "length u \<noteq> 8"
      proof
        assume "length u = 8"
        with h have "u = ''https://''" by (simp add: startsWith_def)
        with assms(4) show False by simp
      qed
      ultimately have "length ''https://'' < length u" by simp
      with h show ?thesis using startsWith_butlast by blast
    qed
    moreover from this have "butlast u \<noteq> []" by (auto simp: startsWith_def)
    ultimately show ?thesis using c' v u True ok(1) by auto
  qed
qed

section \<open>Shapes of values\<close>

lemma typeof_number: "typeof v = ''number'' \<longleftrightarrow> (\<exists>n. v = JNumber n)"
  by (cases v) auto

lemma typeof_string: "typeof v = ''string'' \<longleftrightarrow> (\<exists>s. v = JString s)"
  by (cases v) auto

section \<open>How the transport and the operations end\<close>
















lemma signMessage_cases:
  "(case signMessage A msg of
      Resolved r \<Rightarrow>
        (\<exists>w sign. A = Some w \<and> adapter_signMessage w = Some sign \<and>
           signer_result (sign (messageBytes msg)) = Resolved (Some (signature r)) \<and>
           signature r \<noteq> [] \<and> publicKey w = Some (Inr (address r)))
    | Rejected e \<Rightarrow> instanceof_ValidationError e
    | Pending \<Rightarrow> (\<exists>w sign. A = Some w \<and> adapter_signMessage w = Some sign \<and>
                              signer_result (sign (messageBytes msg)) = Pending))"
proof -
  have c: "\<And>e. instanceof_ValidationError (signMessage_catch e)"
    by (simp add: signMessage_catch_def)
  show ?thesis
    by (simp add: signMessage_def c split: option.splits async.splits sum.splits)
qed

lemma try_checks_Resolved:
  "try_checks r checks = Resolved v \<Longrightarrow> \<exists>d. r = Resolved d \<and> checks d = Resolved v"
  by (auto simp: try_checks_def split: async.splits)

lemma balance_checks_Resolved:
  "balance_response_checks d = Resolved v \<Longrightarrow>
     v = d \<and> (\<exists>n. get_prop d ''balance'' = JNumber n) \<and> get_prop d ''unit'' = JString ''SOL''"
  by (auto simp: balance_response_checks_def typeof_number split: if_splits)

section \<open>Evaluating the examples\<close>

lemmas run_example =
  getWalletBalance_def createPipeline_def verifySignature_def
  example_platform_def example_config_def json_response_def example_JSON_stringify_def
  get_def post_def httpRequest_def build_request_def spread_def call_options_def timeout_or_def
  withTimeout_def fetchFn_def httpRequest_catch_def try_checks_def operation_catch_def
  parse_response_def read_body_def startsWith_def balance_response_checks_def Let_def

lemma encode_BOM_a: "TextEncoder_encode [0xFEFF, 0x61] = [239, 187, 191, 97]"
  by (simp add: TextEncoder_encode_def utf8_encode_def is_high_surrogate_def
      is_low_surrogate_def)

lemma decode_BOM_a: "TextDecoder_decode [239, 187, 191, 97] = [0x61]"
proof -
  have "utf8_decoder utf8_initial [239, 187, 191, 97] = [0xFEFF, 97]"
    by (simp add: utf8_decoder.simps utf8_initial_def)
  moreover have "map unat [239, 187, 191, 97 :: 8 word] = [239, 187, 191, 97]"
    by simp
  ultimately show ?thesis
    unfolding TextDecoder_decode_def by (simp add: utf16_encode_def)
qed

lemma encode_Hi: "TextEncoder_encode [0x48, 0x69] = [72, 105]"
  by (simp add: TextEncoder_encode_def utf8_encode_def is_high_surrogate_def
      is_low_surrogate_def)

lemma decode_AA: "TextDecoder_decode [0x41, 0x41] = [0x41, 0x41]"
proof -
  have "utf8_decoder utf8_initial [65, 65] = [65, 65]"
    by (simp add: utf8_decoder.simps utf8_initial_def)
  moreover have "map unat [0x41, 0x41 :: 8 word] = [65, 65]"
    by simp
  ultimately show ?thesis
    unfolding TextDecoder_decode_def by (simp add: utf16_encode_def)
qed

lemma encode_lone: "TextEncoder_encode [0xD800] = [239, 191, 189]"
  by (simp add: TextEncoder_encode_def utf8_encode_def is_high_surrogate_def
      is_low_surrogate_def)

lemma decode_FFFD: "TextDecoder_decode [239, 191, 189] = [0xFFFD]"
proof -
  have "utf8_decoder utf8_initial [239, 191, 189] = [0xFFFD]"
    by (simp add: utf8_decoder.simps utf8_initial_def)
  moreover have "map unat [239, 191, 189 :: 8 word] = [239, 191, 189]"
    by simp
  ultimately show ?thesis
    unfolding TextDecoder_decode_def by (simp add: utf16_encode_def)
qed

section \<open>The claims\<close>

subsection \<open>C1: how an operation can end\<close>




subsection \<open>C2: the normalized endpoint\<close>

text \<open>
  C2 (fails on the code at the scheme-only endpoint): the normalizer accepts the endpoint
  \<^verbatim>\<open>"http://"\<close>, since it starts with \<^verbatim>\<open>http://\<close>, and then strips its last slash:
  the normalized endpoint is \<^verbatim>\<open>"http:/"\<close>, which begins with neither scheme.
\<close>

theorem normalizeConfig_scheme_only:
  "normalizeConfig \<lparr> baseUrl = Some ''http://'', network = None, timeout = None, fetch = None \<rparr>
     = Inr \<lparr> baseUrl = Some ''http:/'', network = Some ''mainnet-beta'',
             timeout = Some (Num 30000), fetch = None \<rparr>
   \<and> \<not> startsWith ''http:/'' ''http://'' \<and> \<not> startsWith ''http:/'' ''https://''"
  by (simp add: normalizeConfig_def startsWith_def strip_trailing_slash_def
      DEFAULT_NETWORK_def DEFAULT_TIMEOUT_def timeout_or_def)

subsection \<open>C3: non-positive timeouts\<close>

text \<open>
  C3 as stated fails: the normalizer has no check on \<^verbatim>\<open>timeout\<close>. A configuration
  with timeout \<open>-1\<close> is accepted with that timeout, and one with timeout \<open>0\<close> is
  accepted with the default.
\<close>

theorem normalizeConfig_timeout_counterexample:
  "normalizeConfig \<lparr> baseUrl = Some ''https://api.example.com'', network = None,
                      timeout = Some (Num (- 1)), fetch = None \<rparr>
     = Inr \<lparr> baseUrl = Some ''https://api.example.com'', network = Some ''mainnet-beta'',
             timeout = Some (Num (- 1)), fetch = None \<rparr>
   \<and> normalizeConfig \<lparr> baseUrl = Some ''https://api.example.com'', network = None,
                      timeout = Some (Num 0), fetch = None \<rparr>
     = Inr \<lparr> baseUrl = Some ''https://api.example.com'', network = Some ''mainnet-beta'',
             timeout = Some (Num 30000), fetch = None \<rparr>"
  by (simp add: normalizeConfig_def startsWith_def strip_trailing_slash_def
      DEFAULT_NETWORK_def DEFAULT_TIMEOUT_def timeout_or_def)

text \<open>
  C3, amended: the normalizer never rejects a configuration because of its timeout.
  Whether it rejects, and with which error, does not depend on the timeout; in an accepted
  configuration an absent or falsy timeout (\<open>0\<close>, \<open>NaN\<close>) is replaced by the default
  30000, and any other timeout, a negative one included, is kept as it is.
\<close>

theorem normalizeConfig_timeout:
  "(normalizeConfig (c \<lparr> timeout := t \<rparr>) = Inl e \<longleftrightarrow> normalizeConfig c = Inl e) \<and>
   (normalizeConfig c = Inr c' \<longrightarrow>
      timeout c' = Some (case timeout c of
                           None \<Rightarrow> Num 30000
                         | Some n \<Rightarrow> if n = Num 0 \<or> n = NaN then Num 30000 else n))"
proof
  show "normalizeConfig (c \<lparr> timeout := t \<rparr>) = Inl e \<longleftrightarrow> normalizeConfig c = Inl e"
    by (simp add: normalizeConfig_def split: option.splits)
next
  have "timeout_or (timeout c) DEFAULT_TIMEOUT =
        (case timeout c of None \<Rightarrow> Num 30000
         | Some n \<Rightarrow> if n = Num 0 \<or> n = NaN then Num 30000 else n)"
  proof (cases "timeout c")
    case None
    then show ?thesis by (simp add: timeout_or_def DEFAULT_TIMEOUT_def)
  next
    case (Some n)
    then show ?thesis by (cases n) (simp_all add: timeout_or_def DEFAULT_TIMEOUT_def)
  qed
  then show "normalizeConfig c = Inr c' \<longrightarrow>
      timeout c' = Some (case timeout c of
                           None \<Rightarrow> Num 30000
                         | Some n \<Rightarrow> if n = Num 0 \<or> n = NaN then Num 30000 else n)"
    by (auto simp: normalizeConfig_def split: option.splits if_splits)
qed

text \<open>
  Witness for C3: timeout \<open>-250\<close> with a valid endpoint is accepted and kept.
\<close>

theorem normalizeConfig_timeout_witness:
  "normalizeConfig \<lparr> baseUrl = Some ''https://api.example.com/'', network = None,
                     timeout = Some (Num (- 250)), fetch = None \<rparr>
     = Inr \<lparr> baseUrl = Some ''https://api.example.com'', network = Some ''mainnet-beta'',
             timeout = Some (Num (- 250)), fetch = None \<rparr>
   \<and> timeout \<lparr> baseUrl = Some ''https://api.example.com'', network = Some ''mainnet-beta'',
               timeout = Some (Num (- 250)), fetch = None \<rparr> = Some (Num (- 250))"
  using normalizeConfig_timeout
    [where c = "\<lparr> baseUrl = Some ''https://api.example.com/'', network = None,
                   timeout = Some (Num (- 250)), fetch = None \<rparr>"
       and t = None and e = "OtherError ''baseUrl is required''"
       and c' = "\<lparr> baseUrl = Some ''https://api.example.com'',
                    network = Some ''mainnet-beta'',
                    timeout = Some (Num (- 250)), fetch = None \<rparr>"]
  by (simp add: normalizeConfig_def startsWith_def strip_trailing_slash_def
      DEFAULT_NETWORK_def DEFAULT_TIMEOUT_def timeout_or_def)

subsection \<open>C4: the balance that get-balance resolves with\<close>

text \<open>
  C4 as stated fails: the balance is checked for being a number, not for its sign. A
  response \<^verbatim>\<open>{balance: -1, unit: "SOL"}\<close> at status 200 is resolved as it is.
\<close>

theorem getWalletBalance_negative_counterexample:
  "getWalletBalance example_platform (JString ''wallet123'')
     (example_config (\<lambda>url init. Resolved (json_response (Num 200)
        (JObject [(''balance'', JNumber (Num (- 1))), (''unit'', JString ''SOL'')]))))
   = (Resolved (JObject [(''balance'', JNumber (Num (- 1))), (''unit'', JString ''SOL'')]),
      [(''https://api.example.com/api/wallet/balance?address=wallet123'',
        \<lparr> http_method = ''GET'', headers = [''Content-Type'' \<mapsto> ''application/json''],
          body = None \<rparr>)])
   \<and> \<not> (0 :: real) \<le> - 1"
  by (simp add: run_example)

text \<open>
  C4, amended: whenever get-balance resolves, the \<^verbatim>\<open>balance\<close> of the result is a
  number (of either sign) and its \<^verbatim>\<open>unit\<close> is the literal \<^verbatim>\<open>"SOL"\<close>.
\<close>

theorem getWalletBalance_resolved_shape:
  assumes "fst (getWalletBalance P addr config) = Resolved r"
  shows "(\<exists>n. get_prop r ''balance'' = JNumber n) \<and> get_prop r ''unit'' = JString ''SOL''"
proof -
  from assms obtain q where "try_checks q balance_response_checks = Resolved r"
    by (auto simp: getWalletBalance_def Let_def split_beta
        split: if_splits option.splits sum.splits)
  then show ?thesis
    using try_checks_Resolved balance_checks_Resolved by blast
qed

text \<open>
  Witness for C4: the response \<^verbatim>\<open>{balance: 0, unit: "SOL"}\<close> at status 200.
\<close>

theorem getWalletBalance_resolved_shape_witness:
  "fst (getWalletBalance example_platform (JString ''wallet123'')
     (example_config (\<lambda>url init. Resolved (json_response (Num 200)
        (JObject [(''balance'', JNumber (Num 0)), (''unit'', JString ''SOL'')])))))
   = Resolved (JObject [(''balance'', JNumber (Num 0)), (''unit'', JString ''SOL'')])
   \<and> (\<exists>n. get_prop (JObject [(''balance'', JNumber (Num 0)), (''unit'', JString ''SOL'')])
              ''balance'' = JNumber n)
   \<and> get_prop (JObject [(''balance'', JNumber (Num 0)), (''unit'', JString ''SOL'')]) ''unit''
       = JString ''SOL''"
proof -
  have r: "fst (getWalletBalance example_platform (JString ''wallet123'')
     (example_config (\<lambda>url init. Resolved (json_response (Num 200)
        (JObject [(''balance'', JNumber (Num 0)), (''unit'', JString ''SOL'')])))))
   = Resolved (JObject [(''balance'', JNumber (Num 0)), (''unit'', JString ''SOL'')])"
    by (simp add: run_example)
  from getWalletBalance_resolved_shape [OF r] r show ?thesis by blast
qed

subsection \<open>C5: validation of the balance response\<close>

text \<open>
  C5: let get-balance be called with a valid address and endpoint, and let the transport
  deliver the parsed response \<open>d\<close>. If \<open>d\<close> is an object with a numeric
  \<^verbatim>\<open>balance\<close> and \<^verbatim>\<open>unit\<close> equal to \<^verbatim>\<open>"SOL"\<close>, get-balance resolves with
  \<open>d\<close>; if \<^verbatim>\<open>balance\<close> is not numeric or \<^verbatim>\<open>unit\<close> differs from
  \<^verbatim>\<open>"SOL"\<close>, it rejects with a Validation failure.
\<close>

theorem getWalletBalance_response_validation:
  assumes "truthy addr" and "typeof addr = ''string''"
    and "baseUrl config = Some base" and "base \<noteq> []"
    and "encodeURIComponent P (string_of addr) = Inr enc"
    and "fst (get P (base @ ''/api/wallet/balance?address='' @ enc) (call_options config))
         = Resolved d"
  shows "((\<exists>kvs. d = JObject kvs) \<and> (\<exists>n. get_prop d ''balance'' = JNumber n) \<and>
          get_prop d ''unit'' = JString ''SOL''
            \<longrightarrow> fst (getWalletBalance P addr config) = Resolved d) \<and>
         ((\<nexists>n. get_prop d ''balance'' = JNumber n) \<or> get_prop d ''unit'' \<noteq> JString ''SOL''
            \<longrightarrow> (\<exists>m. fst (getWalletBalance P addr config) = Rejected (ValidationError m)))"
proof -
  from assms(1,2) have "string_of addr \<noteq> []"
    by (cases addr) simp_all
  with assms have r: "fst (getWalletBalance P addr config)
                      = try_checks (Resolved d) balance_response_checks"
    by (simp add: getWalletBalance_def Let_def split_beta)
  show ?thesis
    unfolding r
    by (auto simp: try_checks_def balance_response_checks_def operation_catch_def typeof_number)
qed

text \<open>
  Witness for C5: \<^verbatim>\<open>{balance: 10.5, unit: "SOL"}\<close> at status 200 is resolved as it
  is, and \<^verbatim>\<open>{balance: "x", unit: "SOL"}\<close> is rejected with a Validation failure.
\<close>

theorem getWalletBalance_response_validation_witness:
  "fst (getWalletBalance example_platform (JString ''wallet123'')
     (example_config (\<lambda>url init. Resolved (json_response (Num 200)
        (JObject [(''balance'', JNumber (Num (21 / 2))), (''unit'', JString ''SOL'')])))))
   = Resolved (JObject [(''balance'', JNumber (Num (21 / 2))), (''unit'', JString ''SOL'')])
   \<and> (\<exists>m. fst (getWalletBalance example_platform (JString ''wallet123'')
     (example_config (\<lambda>url init. Resolved (json_response (Num 200)
        (JObject [(''balance'', JString ''x''), (''unit'', JString ''SOL'')])))))
     = Rejected (ValidationError m))"
proof -
  let ?good = "JObject [(''balance'', JNumber (Num (21 / 2))), (''unit'', JString ''SOL'')]"
  let ?bad = "JObject [(''balance'', JString ''x''), (''unit'', JString ''SOL'')]"
  let ?cfg = "\<lambda>v. example_config (\<lambda>url init. Resolved (json_response (Num 200) v))"
  have pre: "truthy (JString ''wallet123'')" "typeof (JString ''wallet123'') = ''string''"
    "''https://api.example.com'' \<noteq> []"
    "encodeURIComponent example_platform (string_of (JString ''wallet123'')) = Inr ''wallet123''"
    by (simp_all add: example_platform_def)
  have cfg: "\<And>v. baseUrl (?cfg v) = Some ''https://api.example.com''"
    by (simp add: example_config_def)
  have tr: "\<And>v. fst (get example_platform
              (''https://api.example.com'' @ ''/api/wallet/balance?address='' @ ''wallet123'')
              (call_options (?cfg v))) = Resolved v"
    by (simp add: run_example)
  from getWalletBalance_response_validation [OF pre(1,2) cfg pre(3,4) tr, of ?good]
  have "fst (getWalletBalance example_platform (JString ''wallet123'') (?cfg ?good))
        = Resolved ?good"
    by simp
  moreover
  from getWalletBalance_response_validation [OF pre(1,2) cfg pre(3,4) tr, of ?bad]
  have "\<exists>m. fst (getWalletBalance example_platform (JString ''wallet123'') (?cfg ?bad))
        = Rejected (ValidationError m)"
    by simp
  ultimately show ?thesis by blast
qed

subsection \<open>C6: signing a text and signing its bytes\<close>

text \<open>
  C6 as stated fails, in three ways. \<^verbatim>\<open>new TextDecoder().decode\<close> drops a leading
  byte order mark: for the two-unit text U+FEFF \<^verbatim>\<open>a\<close>, signing the string yields the
  text itself as \<^verbatim>\<open>message\<close>, signing its UTF-8 bytes yields \<^verbatim>\<open>"a"\<close>. The
  encoder replaces a surrogate outside a pair: the one-unit text U+D800 comes back from
  its bytes as U+FFFD. And the
  byte message is handed to the signer by reference and decoded only after the signer
  has settled: a signer that overwrites the array with \<^verbatim>\<open>AA\<close> makes the bytes of
  \<^verbatim>\<open>"Hi"\<close> come back as the message \<^verbatim>\<open>"AA"\<close>.
\<close>

theorem signMessage_message_counterexample:
  "signMessage
     (Some (example_adapter (\<lambda>b. \<lparr> signer_result = Resolved (Some [1, 2, 3]), array_after = b \<rparr>)))
     (StringMessage [0xFEFF, 0x61])
   = Resolved \<lparr> address = ''wallet123'', message = [0xFEFF, 0x61], signature = [1, 2, 3] \<rparr>
   \<and> signMessage
     (Some (example_adapter (\<lambda>b. \<lparr> signer_result = Resolved (Some [1, 2, 3]), array_after = b \<rparr>)))
     (BytesMessage (TextEncoder_encode [0xFEFF, 0x61]))
   = Resolved \<lparr> address = ''wallet123'', message = [0x61], signature = [1, 2, 3] \<rparr>
   \<and> [0x61] \<noteq> [0xFEFF, 0x61 :: 16 word]
   \<and> signMessage
     (Some (example_adapter (\<lambda>b. \<lparr> signer_result = Resolved (Some [1, 2, 3]), array_after = b \<rparr>)))
     (StringMessage [0xD800])
   = Resolved \<lparr> address = ''wallet123'', message = [0xD800], signature = [1, 2, 3] \<rparr>
   \<and> signMessage
     (Some (example_adapter (\<lambda>b. \<lparr> signer_result = Resolved (Some [1, 2, 3]), array_after = b \<rparr>)))
     (BytesMessage (TextEncoder_encode [0xD800]))
   = Resolved \<lparr> address = ''wallet123'', message = [0xFFFD], signature = [1, 2, 3] \<rparr>
   \<and> [0xFFFD] \<noteq> [0xD800 :: 16 word]
   \<and> signMessage
     (Some (example_adapter
        (\<lambda>b. \<lparr> signer_result = Resolved (Some [1, 2, 3]), array_after = [0x41, 0x41] \<rparr>)))
     (StringMessage [0x48, 0x69])
   = Resolved \<lparr> address = ''wallet123'', message = [0x48, 0x69], signature = [1, 2, 3] \<rparr>
   \<and> signMessage
     (Some (example_adapter
        (\<lambda>b. \<lparr> signer_result = Resolved (Some [1, 2, 3]), array_after = [0x41, 0x41] \<rparr>)))
     (BytesMessage (TextEncoder_encode [0x48, 0x69]))
   = Resolved \<lparr> address = ''wallet123'', message = [0x41, 0x41], signature = [1, 2, 3] \<rparr>
   \<and> [0x41, 0x41] \<noteq> [0x48, 0x69 :: 16 word]"
  by (simp add: signMessage_def example_adapter_def messageBytes_def encode_BOM_a decode_BOM_a
      encode_Hi decode_AA encode_lone decode_FFFD)

text \<open>
  C6, amended: let \<open>m\<close> be a non-empty string that is well-formed UTF-16 (no
  surrogate outside a pair) and does not begin with U+FEFF. Whenever signing \<open>m\<close> as a
  string resolves, the \<^verbatim>\<open>message\<close> of the result is \<open>m\<close>; and whenever signing the
  UTF-8 bytes of \<open>m\<close> resolves, the signer having left the byte array as it was handed
  over, the \<^verbatim>\<open>message\<close> of the result is \<open>m\<close> as well. Nothing relates the signer's
  behaviour on the two calls.
\<close>

theorem signMessage_message_field:
  assumes "m \<noteq> []" and "well_formed_utf16 (map unat m)" and "hd m \<noteq> 0xFEFF"
  shows "(signMessage A (StringMessage m) = Resolved r \<longrightarrow> message r = m) \<and>
         (A' = Some w \<and> adapter_signMessage w = Some sign \<and>
          array_after (sign (TextEncoder_encode m)) = TextEncoder_encode m \<and>
          signMessage A' (BytesMessage (TextEncoder_encode m)) = Resolved r'
            \<longrightarrow> message r' = m)"
proof (intro conjI impI)
  assume "signMessage A (StringMessage m) = Resolved r"
  then show "message r = m"
    by (auto simp: signMessage_def split: option.splits async.splits sum.splits if_splits)
next
  assume a: "A' = Some w \<and> adapter_signMessage w = Some sign \<and>
          array_after (sign (TextEncoder_encode m)) = TextEncoder_encode m \<and>
          signMessage A' (BytesMessage (TextEncoder_encode m)) = Resolved r'"
  from assms(2,3) have rt: "TextDecoder_decode (TextEncoder_encode m) = m"
    by (simp add: TextDecoder_TextEncoder)
  from a have "message r' = TextDecoder_decode (array_after (sign (TextEncoder_encode m)))"
    by (auto simp: signMessage_def split: option.splits async.splits sum.splits if_splits)
  with a rt show "message r' = m" by simp
qed

text \<open>
  Witness for C6: the text \<^verbatim>\<open>"Hi"\<close>, signed as a string and through its bytes by a
  signer that leaves the array alone.
\<close>

theorem signMessage_message_field_witness:
  "signMessage
     (Some (example_adapter (\<lambda>b. \<lparr> signer_result = Resolved (Some [1, 2, 3]), array_after = b \<rparr>)))
     (StringMessage [0x48, 0x69])
   = Resolved \<lparr> address = ''wallet123'', message = [0x48, 0x69], signature = [1, 2, 3] \<rparr>
   \<and> signMessage
     (Some (example_adapter (\<lambda>b. \<lparr> signer_result = Resolved (Some [1, 2, 3]), array_after = b \<rparr>)))
     (BytesMessage (TextEncoder_encode [0x48, 0x69]))
   = Resolved \<lparr> address = ''wallet123'', message = [0x48, 0x69], signature = [1, 2, 3] \<rparr>
   \<and> message \<lparr> address = ''wallet123'', message = [0x48, 0x69], signature = [1, 2, 3] \<rparr>
       = [0x48, 0x69]"
proof -
  let ?sign = "\<lambda>b. \<lparr> signer_result = Resolved (Some [1, 2, 3 :: 8 word]), array_after = b \<rparr>"
  let ?r = "\<lparr> address = ''wallet123'', message = [0x48, 0x69], signature = [1, 2, 3] \<rparr>"
  have pre: "[0x48, 0x69 :: 16 word] \<noteq> []" "well_formed_utf16 (map unat [0x48, 0x69 :: 16 word])"
    "hd [0x48, 0x69 :: 16 word] \<noteq> 0xFEFF"
    by (simp_all add: is_high_surrogate_def is_low_surrogate_def)
  have dec: "TextDecoder_decode [72, 105] = [0x48, 0x69]"
  proof -
    have "utf8_decoder utf8_initial [72, 105] = [72, 105]"
      by (simp add: utf8_decoder.simps utf8_initial_def)
    moreover have "map unat [72, 105 :: 8 word] = [72, 105]" by simp
    ultimately show ?thesis
      unfolding TextDecoder_decode_def by (simp add: utf16_encode_def)
  qed
  have s: "signMessage (Some (example_adapter ?sign)) (StringMessage [0x48, 0x69]) = Resolved ?r"
    by (simp add: signMessage_def example_adapter_def messageBytes_def encode_Hi)
  have b: "signMessage (Some (example_adapter ?sign))
             (BytesMessage (TextEncoder_encode [0x48, 0x69])) = Resolved ?r"
    by (simp add: signMessage_def example_adapter_def messageBytes_def encode_Hi dec)
  from signMessage_message_field [OF pre,
      where A = "Some (example_adapter ?sign)" and r = ?r
        and A' = "Some (example_adapter ?sign)" and w = "example_adapter ?sign"
        and sign = ?sign and r' = ?r] s b
  show ?thesis by (simp add: example_adapter_def)
qed

subsection \<open>C7: failures of signing\<close>

text \<open>
  C7: whatever sign-message rejects with is a Validation failure, so never a Network,
  Timeout or HttpStatus failure; a failure of the signer that is not a Validation failure
  is replaced by a Validation failure whose message carries the message of the cause; a
  signer that returns no signature or an empty one yields a Validation failure.
\<close>

theorem signMessage_rejects_with_Validation:
  "(signMessage A msg = Rejected e \<longrightarrow> instanceof_ValidationError e) \<and>
   (A = Some w \<and> adapter_signMessage w = Some sign \<and> publicKey w = Some k \<and>
    messageBytes msg \<noteq> [] \<and> signer_result (sign (messageBytes msg)) = Rejected cause \<and>
    \<not> instanceof_ValidationError cause
      \<longrightarrow> signMessage A msg = Rejected (ValidationError (''Failed to sign message: '' @
             (if instanceof_Error cause then error_message cause else ''Unknown error'')))) \<and>
   (A = Some w \<and> adapter_signMessage w = Some sign \<and> publicKey w = Some k \<and>
    messageBytes msg \<noteq> [] \<and>
    (signer_result (sign (messageBytes msg)) = Resolved None \<or>
     signer_result (sign (messageBytes msg)) = Resolved (Some []))
      \<longrightarrow> signMessage A msg = Rejected (ValidationError ''Wallet returned invalid signature''))"
proof (intro conjI impI)
  assume "signMessage A msg = Rejected e"
  with signMessage_cases [of A msg] show "instanceof_ValidationError e" by simp
next
  assume "A = Some w \<and> adapter_signMessage w = Some sign \<and> publicKey w = Some k \<and>
    messageBytes msg \<noteq> [] \<and> signer_result (sign (messageBytes msg)) = Rejected cause \<and>
    \<not> instanceof_ValidationError cause"
  then show "signMessage A msg = Rejected (ValidationError (''Failed to sign message: '' @
             (if instanceof_Error cause then error_message cause else ''Unknown error'')))"
    by (simp add: signMessage_def signMessage_catch_def)
next
  assume "A = Some w \<and> adapter_signMessage w = Some sign \<and> publicKey w = Some k \<and>
    messageBytes msg \<noteq> [] \<and>
    (signer_result (sign (messageBytes msg)) = Resolved None \<or>
     signer_result (sign (messageBytes msg)) = Resolved (Some []))"
  then show "signMessage A msg = Rejected (ValidationError ''Wallet returned invalid signature'')"
    by (auto simp: signMessage_def signMessage_catch_def)
qed

text \<open>
  Witness for C7: a signer that rejects with a Network failure, and one that resolves
  with an empty signature.
\<close>

theorem signMessage_rejects_with_Validation_witness:
  "signMessage
     (Some (example_adapter
        (\<lambda>b. \<lparr> signer_result = Rejected (NetworkError ''offline'' None), array_after = b \<rparr>)))
     (StringMessage [0x48, 0x69])
   = Rejected (ValidationError ''Failed to sign message: offline'')
   \<and> instanceof_ValidationError (ValidationError ''Failed to sign message: offline'')
   \<and> signMessage
     (Some (example_adapter (\<lambda>b. \<lparr> signer_result = Resolved (Some []), array_after = b \<rparr>)))
     (StringMessage [0x48, 0x69])
   = Rejected (ValidationError ''Wallet returned invalid signature'')"
proof -
  let ?off = "\<lambda>b :: bytes. \<lparr> signer_result = Rejected (NetworkError ''offline'' None),
                              array_after = b \<rparr>"
  let ?empty = "\<lambda>b :: bytes. \<lparr> signer_result = Resolved (Some []), array_after = b \<rparr>"
  have enc: "messageBytes (StringMessage [0x48, 0x69]) = [72, 105]"
    by (simp add: messageBytes_def encode_Hi)
  from signMessage_rejects_with_Validation
    [where A = "Some (example_adapter ?off)"
       and msg = "StringMessage [0x48, 0x69]"
       and w = "example_adapter ?off" and sign = ?off
       and k = "Inr ''wallet123''" and cause = "NetworkError ''offline'' None"
       and e = "ValidationError ''Failed to sign message: offline''"]
  have a: "signMessage (Some (example_adapter ?off)) (StringMessage [0x48, 0x69])
           = Rejected (ValidationError ''Failed to sign message: offline'')
           \<and> instanceof_ValidationError (ValidationError ''Failed to sign message: offline'')"
    by (simp add: example_adapter_def enc)
  from signMessage_rejects_with_Validation
    [where A = "Some (example_adapter ?empty)"
       and msg = "StringMessage [0x48, 0x69]"
       and w = "example_adapter ?empty" and sign = ?empty
       and k = "Inr ''wallet123''"]
  have b: "signMessage (Some (example_adapter ?empty)) (StringMessage [0x48, 0x69])
           = Rejected (ValidationError ''Wallet returned invalid signature'')"
    by (simp add: example_adapter_def enc)
  from a b show ?thesis by blast
qed

subsection \<open>C8: the body of the request descriptor\<close>

text \<open>
  C8 as stated fails: the body is attached under \<^verbatim>\<open>if (body)\<close>, so a supplied
  body that is falsy is left out. \<^verbatim>\<open>post(url, false, ...)\<close> calls the transport with
  a descriptor that has no body, not with the JSON text \<^verbatim>\<open>false\<close>.
\<close>

theorem post_falsy_body_counterexample:
  "snd (post example_platform ''https://api.example.com/items'' (JBool False)
          \<lparr> opt_method = None, opt_headers = None, opt_body = None,
            opt_timeout = Num 5000, opt_fetch = None \<rparr>)
   = [(''https://api.example.com/items'',
       \<lparr> http_method = ''POST'', headers = [''Content-Type'' \<mapsto> ''application/json''],
         body = None \<rparr>)]
   \<and> JSON_stringify example_platform (JBool False) = Inr ''false''"
  by (simp add: post_def httpRequest_def build_request_def spread_def Let_def
      example_platform_def example_JSON_stringify_def)

text \<open>
  C8, amended: the descriptor that \<^verbatim>\<open>httpRequest\<close> passes to the transport has a
  body if and only if a truthy body value was supplied; the body then is the JSON
  serialization of the value. With no body supplied, or a falsy one (\<^verbatim>\<open>undefined\<close>,
  \<^verbatim>\<open>null\<close>, \<^verbatim>\<open>false\<close>, \<open>0\<close>, \<open>NaN\<close>, the empty string), the descriptor has no
  body field. In each of these cases the transport is called once. (A truthy value that
  has no JSON serialization makes \<^verbatim>\<open>JSON.stringify\<close> throw: then no descriptor is
  passed on at all.)
\<close>

theorem httpRequest_body:
  "(case opt_body options of
      None \<Rightarrow> (\<exists>ri. snd (httpRequest P url options) = [(url, ri)] \<and> body ri = None)
    | Some v \<Rightarrow>
        if \<not> truthy v
          then (\<exists>ri. snd (httpRequest P url options) = [(url, ri)] \<and> body ri = None)
        else (case JSON_stringify P v of
                Inr json \<Rightarrow>
                  (\<exists>ri. snd (httpRequest P url options) = [(url, ri)] \<and> body ri = Some json)
              | Inl e \<Rightarrow> httpRequest P url options = (Rejected e, [])))"
  by (simp add: httpRequest_def build_request_def Let_def split: option.splits sum.splits)

text \<open>
  Example for C8: \<^verbatim>\<open>post(url, "hi", ...)\<close> attaches the JSON text \<^verbatim>\<open>"hi"\<close>, quotes
  included; \<^verbatim>\<open>post(url, 10n, ...)\<close> makes no call.
\<close>

theorem httpRequest_body_witness:
  "(\<exists>ri. snd (post example_platform ''https://api.example.com/items'' (JString ''hi'')
               \<lparr> opt_method = None, opt_headers = None, opt_body = None,
                 opt_timeout = Num 5000, opt_fetch = None \<rparr>)
          = [(''https://api.example.com/items'', ri)]
        \<and> body ri = Some [CHR 0x22, CHR ''h'', CHR ''i'', CHR 0x22])
   \<and> post example_platform ''https://api.example.com/items'' (JBigInt 10)
               \<lparr> opt_method = None, opt_headers = None, opt_body = None,
                 opt_timeout = Num 5000, opt_fetch = None \<rparr>
     = (Rejected (TypeError ''Do not know how to serialize a BigInt''), [])"
  using httpRequest_body [where P = example_platform
       and url = "''https://api.example.com/items''"
       and options = "\<lparr> opt_method = Some ''POST'', opt_headers = None,
         opt_body = Some (JString ''hi''), opt_timeout = Num 5000, opt_fetch = None \<rparr>"]
    httpRequest_body [where P = example_platform
       and url = "''https://api.example.com/items''"
       and options = "\<lparr> opt_method = Some ''POST'', opt_headers = None,
         opt_body = Some (JBigInt 10), opt_timeout = Num 5000, opt_fetch = None \<rparr>"]
  by (simp add: post_def example_platform_def example_JSON_stringify_def quote_json_def)

subsection \<open>C9: create-resource with an invalid name\<close>

text \<open>
  C9: create-resource, called with an input whose \<^verbatim>\<open>name\<close> is not a non-empty
  string, rejects with a Validation failure, and the log of transport calls is empty.
\<close>

theorem createPipeline_invalid_name:
  assumes "\<not> (\<exists>s. s \<noteq> [] \<and> get_prop pipelineConfig ''name'' = JString s)"
  shows "\<exists>m. createPipeline P pipelineConfig config = (Rejected (ValidationError m), [])"
proof (cases "truthy (get_prop pipelineConfig ''name'')
              \<and> typeof (get_prop pipelineConfig ''name'') = ''string''")
  case True
  then obtain s where "get_prop pipelineConfig ''name'' = JString s" "s \<noteq> []"
    by (auto simp: typeof_string)
  with assms show ?thesis by simp
next
  case False
  then show ?thesis by (auto simp: createPipeline_def)
qed

text \<open>
  Witness for C9: the input \<^verbatim>\<open>{name: ""}\<close>.
\<close>

theorem createPipeline_invalid_name_witness:
  "createPipeline example_platform (JObject [(''name'', JString [])])
     (example_config (\<lambda>url init. Resolved (json_response (Num 200)
        (JObject [(''pipelineId'', JString ''pipe_123''), (''status'', JString ''active'')]))))
   = (Rejected (ValidationError ''Pipeline name is required''), [])"
  using createPipeline_invalid_name [of "JObject [(''name'', JString [])]" example_platform
    "example_config (\<lambda>url init. Resolved (json_response (Num 200)
        (JObject [(''pipelineId'', JString ''pipe_123''), (''status'', JString ''active'')])))"]
  by (simp add: createPipeline_def)

subsection \<open>C10: operations called with no endpoint\<close>

text \<open>
  C10: verify-signature, get-balance and create-resource, called with a configuration
  whose \<^verbatim>\<open>baseUrl\<close> is absent or empty, reject with a Validation failure, and the log
  of transport calls is empty, whatever the other arguments are.
\<close>

theorem operations_reject_missing_baseUrl:
  assumes "baseUrl_missing config"
  shows "(\<exists>m. verifySignature P payload config = (Rejected (ValidationError m), [])) \<and>
         (\<exists>m. getWalletBalance P addr config = (Rejected (ValidationError m), [])) \<and>
         (\<exists>m. createPipeline P pipelineConfig config = (Rejected (ValidationError m), []))"
proof -
  from assms have b: "baseUrl config = None \<or> baseUrl config = Some []"
    by (simp add: baseUrl_missing_def split: option.splits)
  have "\<exists>m. verifySignature P payload config = (Rejected (ValidationError m), [])"
    using b by (auto simp add: verifySignature_def)
  moreover have "\<exists>m. getWalletBalance P addr config = (Rejected (ValidationError m), [])"
    using b by (auto simp add: getWalletBalance_def)
  moreover have "\<exists>m. createPipeline P pipelineConfig config = (Rejected (ValidationError m), [])"
    using b by (auto simp add: createPipeline_def)
  ultimately show ?thesis by blast
qed

text \<open>
  Witness for C10: valid arguments and a configuration with the empty endpoint.
\<close>

theorem operations_reject_missing_baseUrl_witness:
  "verifySignature example_platform
     [(''wallet'', JString ''wallet123''), (''message'', JString ''Hello''),
      (''signature'', JArray [JNumber (Num 1), JNumber (Num 2), JNumber (Num 3)])]
     ((example_config (\<lambda>url init. Pending)) \<lparr> baseUrl := Some [] \<rparr>)
   = (Rejected (ValidationError ''SDK config is invalid''), [])
   \<and> getWalletBalance example_platform (JString ''wallet123'')
     ((example_config (\<lambda>url init. Pending)) \<lparr> baseUrl := Some [] \<rparr>)
   = (Rejected (ValidationError ''SDK config is invalid''), [])
   \<and> createPipeline example_platform (JObject [(''name'', JString ''My Pipeline'')])
     ((example_config (\<lambda>url init. Pending)) \<lparr> baseUrl := Some [] \<rparr>)
   = (Rejected (ValidationError ''SDK config is invalid''), [])"
proof -
  have "baseUrl_missing ((example_config (\<lambda>url init. Pending)) \<lparr> baseUrl := Some [] \<rparr>)"
    by (simp add: baseUrl_missing_def)
  from operations_reject_missing_baseUrl [OF this, of example_platform
      "[(''wallet'', JString ''wallet123''), (''message'', JString ''Hello''),
        (''signature'', JArray [JNumber (Num 1), JNumber (Num 2), JNumber (Num 3)])]"
      "JString ''wallet123''" "JObject [(''name'', JString ''My Pipeline'')]"]
  show ?thesis
    by (simp add: verifySignature_def getWalletBalance_def createPipeline_def)
qed

end
